theory Spec2Isabelle
  imports Main "HOL-Library.Word" "HOL-Library.Sublist"
begin

unbundle bit_operations_syntax

section \<open>Python values: errors, integers as text, the \<open>%\<close> operator\<close>

text \<open>
  The script runs on Python 3. There the \<open>c_char\<close> array fields of a ctypes structure
  read as \<open>bytes\<close> objects, while the templates and the literal \<open>'/'\<close> are \<open>str\<close>
  objects. Both are lists of \<^typ>\<open>char\<close> here (a \<^typ>\<open>char\<close> is one byte); what Python
  does differently for the two types is written out where the script mixes them: \<open>str\<close>
  of a \<open>bytes\<close> object and the comparison of a \<open>bytes\<close> object with a \<open>str\<close>. Every
  exception the modelled code can raise is a value.
\<close>

type_synonym bytes = string

datatype error = KeyError | TypeError | ValueError | IOError

definition digit_char :: "nat \<Rightarrow> char" where
  "digit_char d = char_of (48 + d)"

text \<open>\<open>str(n)\<close> for a non-negative integer: its decimal digits, no leading zero.\<close>

fun str_nat :: "nat \<Rightarrow> string" where
  "str_nat n = (if n < 10 then [digit_char n] else str_nat (n div 10) @ [digit_char (n mod 10)])"

declare str_nat.simps [simp del]

definition str_int :: "int \<Rightarrow> string" where
  "str_int i = (if i < 0 then CHR ''-'' # str_nat (nat (- i)) else str_nat (nat i))"

text \<open>
  \<open>str(b)\<close> for a \<open>bytes\<close> object \<open>b\<close>, which is what \<open>%s\<close> inserts for it: the
  literal \<open>b'...'\<close>. The quote is the single quote, or the double quote when \<open>b\<close> holds a
  single quote and no double quote; the quote in use and the backslash are escaped with a
  backslash, tab, newline and carriage return are written \<open>\t\<close>, \<open>\n\<close>, \<open>\r\<close>, every other
  byte below the space or from \<open>0x7f\<close> on is written \<open>\xhh\<close> with two lower-case hex digits,
  and every other byte stands for itself.
\<close>

definition hex_digit :: "nat \<Rightarrow> char" where
  "hex_digit d = char_of (if d < 10 then 48 + d else 87 + d)"

definition repr_byte :: "char \<Rightarrow> char \<Rightarrow> string" where
  "repr_byte quote c =
     (if c = quote \<or> c = CHR 0x5C then [CHR 0x5C, c]
      else if c = CHR 0x09 then [CHR 0x5C, CHR ''t'']
      else if c = CHR 0x0A then [CHR 0x5C, CHR ''n'']
      else if c = CHR 0x0D then [CHR 0x5C, CHR ''r'']
      else if (of_char c :: nat) < 32 \<or> 127 \<le> (of_char c :: nat)
        then [CHR 0x5C, CHR ''x'', hex_digit (of_char c div 16), hex_digit (of_char c mod 16)]
      else [c])"

definition str_bytes :: "bytes \<Rightarrow> string" where
  "str_bytes b =
     (let quote = (if CHR 0x27 \<in> set b \<and> CHR 0x22 \<notin> set b then CHR 0x22 else CHR 0x27)
      in CHR ''b'' # quote # concat (map (repr_byte quote) b) @ [quote])"

text \<open>
  \<open>b != s\<close> for a \<open>bytes\<close> object \<open>b\<close> and a \<open>str\<close> object \<open>s\<close>: objects of the two
  types are never equal, whatever they hold.
\<close>

definition bytes_ne_str :: "bytes \<Rightarrow> string \<Rightarrow> bool" where
  "bytes_ne_str b s = True"

text \<open>
  \<open>fmt % args\<close> for the templates of the script, whose only conversion is \<open>%s\<close>: each
  \<open>%s\<close> takes the next argument, already converted by \<open>str\<close>. Too few or too many
  arguments raise \<open>TypeError\<close>; a \<open>%\<close> that does not start \<open>%s\<close> (none occurs in the
  templates) is reported as \<open>ValueError\<close>.
\<close>

fun pyformat :: "string \<Rightarrow> string list \<Rightarrow> error + string" where
  "pyformat [] args = (if args = [] then Inr [] else Inl TypeError)"
| "pyformat [c] args =
     (if c = CHR ''%'' then Inl ValueError
      else map_sum id ((#) c) (pyformat [] args))"
| "pyformat (c # d # fs) args =
     (if c = CHR ''%'' then
        (if d = CHR ''s'' then
           (case args of
              [] \<Rightarrow> Inl TypeError
            | a # as \<Rightarrow> map_sum id ((@) a) (pyformat fs as))
         else Inl ValueError)
      else map_sum id ((#) c) (pyformat (d # fs) args))"

text \<open>\<open>sep.join(lines)\<close>.\<close>

fun join :: "string \<Rightarrow> string list \<Rightarrow> string" where
  "join sep [] = []"
| "join sep [l] = l"
| "join sep (l # m # ls) = l @ sep @ join sep (m # ls)"

section \<open>User/kernel data structures\<close>

definition TASK_COMM_LEN :: nat where
  "TASK_COMM_LEN = 16"

definition CGROUP_NAME :: nat where
  "CGROUP_NAME = 64"

text \<open>
  The ctypes structures. Integer fields keep their C width; a \<open>c_char\<close> array field is
  held as the \<open>bytes\<close> object that reading the attribute returns.
\<close>

record task_info =
  pid :: "32 word"
  uid :: "32 word"
  gid :: "32 word"
  cgroup :: bytes
  task :: bytes

record net_info4 =
  loc_port :: "16 word"
  dst_port :: "16 word"
  saddr :: "32 word"
  daddr :: "32 word"

record kernel_data =
  absolute_time :: "64 word"
  ktime :: "64 word"
  task :: task_info
  ptask :: task_info
  etype :: "32 word"
  net4 :: net_info4

section \<open>Events statistics\<close>

text \<open>
  \<open>AtomicInteger\<close>: a Python integer behind a lock. The lock only serialises the calls;
  the model is the sequential behaviour of each call.
\<close>

record AtomicInteger =
  m_value :: int

definition AtomicInteger_init :: "int \<Rightarrow> AtomicInteger" where
  "AtomicInteger_init t_value = \<lparr>m_value = t_value\<rparr>"

definition AtomicInteger_add :: "AtomicInteger \<Rightarrow> int \<Rightarrow> AtomicInteger" where
  "AtomicInteger_add self t_v = self\<lparr>m_value := m_value self + t_v\<rparr>"

definition AtomicInteger_get :: "AtomicInteger \<Rightarrow> int" where
  "AtomicInteger_get self = m_value self"

record Events_Statics =
  connect_counter :: AtomicInteger
  accept_counter :: AtomicInteger

definition Events_Statics_init :: Events_Statics where
  "Events_Statics_init =
     \<lparr>connect_counter = AtomicInteger_init 0, accept_counter = AtomicInteger_init 0\<rparr>"

text \<open>\<open>Events_Statics.add\<close>: \<open>+= 1\<close> on a counter is \<open>__add__\<close>, which returns the counter itself.\<close>

definition Events_Statics_add :: "Events_Statics \<Rightarrow> kernel_data \<Rightarrow> Events_Statics" where
  "Events_Statics_add self e =
     (if sint (etype e) = 601
      then self\<lparr>accept_counter := AtomicInteger_add (accept_counter self) 1\<rparr>
      else self\<lparr>connect_counter := AtomicInteger_add (connect_counter self) 1\<rparr>)"

text \<open>\<open>Events_Statics.__str__\<close>, with the local names of the source.\<close>

definition Events_Statics_line :: string where
  "Events_Statics_line =
     ''===== Events count =====\<newline>tot: %s \<newline>accpt: %s \<newline>conn: %s''"

definition Events_Statics_str :: "Events_Statics \<Rightarrow> error + string" where
  "Events_Statics_str self =
     (let conn = AtomicInteger_get (accept_counter self);
          acpt = AtomicInteger_get (connect_counter self)
      in pyformat Events_Statics_line [str_int (conn + acpt), str_int conn, str_int acpt])"

text \<open>The events of a run, added one after the other to the statistics.\<close>

definition add_all :: "Events_Statics \<Rightarrow> kernel_data list \<Rightarrow> Events_Statics" where
  "add_all self es = foldl Events_Statics_add self es"


section \<open>Rendering an event\<close>

text \<open>
  A ctypes structure reads its integers in the byte order of the host, and
  \<open>pack("I", x)\<close> writes in the same order, so the host's byte order is a parameter.
\<close>

datatype byteorder = LittleEndian | BigEndian

text \<open>\<open>pack("I", x)\<close>: the four bytes of an unsigned 32-bit value in host order.\<close>

definition pack_I :: "byteorder \<Rightarrow> 32 word \<Rightarrow> 8 word list" where
  "pack_I bo x =
     (let le = map (\<lambda>i. ucast (drop_bit (8 * i) x)) [0..<4]
      in case bo of LittleEndian \<Rightarrow> le | BigEndian \<Rightarrow> rev le)"

definition dotted_quad :: "8 word \<Rightarrow> 8 word \<Rightarrow> 8 word \<Rightarrow> 8 word \<Rightarrow> string" where
  "dotted_quad a b c d =
     str_nat (unat a) @ ''.'' @ str_nat (unat b) @ ''.'' @ str_nat (unat c) @ ''.'' @ str_nat (unat d)"

text \<open>\<open>inet_ntop(AF_INET, packed)\<close>: four bytes in address order, \<open>ValueError\<close> otherwise.\<close>

fun inet_ntop :: "8 word list \<Rightarrow> error + string" where
  "inet_ntop [a, b, c, d] = Inr (dotted_quad a b c d)"
| "inet_ntop bs = Inl ValueError"

text \<open>
  \<open>socket.ntohs\<close>, which the script imports and never calls: the 16-bit conversion from
  network (big-endian) to host byte order.
\<close>

definition ntohs :: "byteorder \<Rightarrow> 16 word \<Rightarrow> 16 word" where
  "ntohs bo x =
     (case bo of
        BigEndian \<Rightarrow> x
      | LittleEndian \<Rightarrow> push_bit 8 x OR drop_bit 8 x)"

definition ltask :: string where
  "ltask = ''[ktime: %s][gid: %s][uid: %s][pid: %s][%s]''"

definition lparent :: string where
  "lparent = ''parent: [gid: %s][uid: %s][pid: %s][%s]''"

definition lnetinfo :: string where
  "lnetinfo = ''netinfo: [%s][IPv4][%s:%s <-> %s:%s]''"

definition lcgroup :: string where
  "lcgroup = ''container: [dockerid: %s]''"

definition etype_table :: "int \<rightharpoonup> string" where
  "etype_table = [601 \<mapsto> ''TCP/ACC'', 602 \<mapsto> ''TCP/CONN'']"

text \<open>\<open>etype2str\<close>: a dictionary subscript, \<open>KeyError\<close> for a key that is not in the table.\<close>

definition etype2str :: "kernel_data \<Rightarrow> error + string" where
  "etype2str self =
     (case etype_table (sint (etype self)) of
        None \<Rightarrow> Inl KeyError
      | Some label \<Rightarrow> Inr label)"

text \<open>Sequencing of steps that may raise: the first exception ends the computation.\<close>

definition and_then :: "error + 'a \<Rightarrow> ('a \<Rightarrow> error + 'b) \<Rightarrow> error + 'b" where
  "and_then r f = (case r of Inl err \<Rightarrow> Inl err | Inr x \<Rightarrow> f x)"

text \<open>
  The four strings that \<open>__str__\<close> appends to \<open>lines\<close>, one definition per append. The
  arguments of \<open>%\<close> are converted by \<open>str\<close>: the integers to decimal digits, the \<open>bytes\<close>
  objects \<open>task.task\<close>, \<open>ptask.task\<close> and \<open>dockerid\<close> to their literals.
\<close>

definition task_line :: "kernel_data \<Rightarrow> error + string" where
  "task_line self =
     pyformat ltask
       [str_nat (unat (ktime self)), str_nat (unat (gid (task self))),
        str_nat (unat (uid (task self))), str_nat (unat (pid (task self))),
        str_bytes (task_info.task (task self))]"

definition parent_line :: "kernel_data \<Rightarrow> error + string" where
  "parent_line self =
     pyformat lparent
       [str_nat (unat (gid (ptask self))), str_nat (unat (uid (ptask self))),
        str_nat (unat (pid (ptask self))), str_bytes (task_info.task (ptask self))]"

definition netinfo_line :: "byteorder \<Rightarrow> kernel_data \<Rightarrow> error + string" where
  "netinfo_line bo self =
     and_then (etype2str self) (\<lambda>label.
     and_then (inet_ntop (pack_I bo (saddr (net4 self)))) (\<lambda>src.
     and_then (inet_ntop (pack_I bo (daddr (net4 self)))) (\<lambda>dst.
       pyformat lnetinfo
         [label, src, str_nat (unat (loc_port (net4 self))),
          dst, str_nat (unat (dst_port (net4 self)))])))"

definition container_line :: "bool \<Rightarrow> kernel_data \<Rightarrow> error + string" where
  "container_line NO_TRUNC self =
     (let dockerid = (if NO_TRUNC then cgroup (task self) else take 12 (cgroup (task self)))
      in pyformat lcgroup [str_bytes dockerid])"

text \<open>The list \<open>lines\<close> at the \<open>return\<close> of \<open>__str__\<close>, and \<open>__str__\<close> itself.\<close>

definition kernel_data_lines :: "byteorder \<Rightarrow> bool \<Rightarrow> kernel_data \<Rightarrow> error + string list" where
  "kernel_data_lines bo NO_TRUNC self =
     and_then (task_line self) (\<lambda>l1.
     and_then (parent_line self) (\<lambda>l2.
     and_then (netinfo_line bo self) (\<lambda>l3.
       if bytes_ne_str (cgroup (task self)) ''/''
       then and_then (container_line NO_TRUNC self) (\<lambda>l4. Inr [l1, l2, l3, l4])
       else Inr [l1, l2, l3])))"

definition kernel_data_str :: "byteorder \<Rightarrow> bool \<Rightarrow> kernel_data \<Rightarrow> error + string" where
  "kernel_data_str bo NO_TRUNC self =
     and_then (kernel_data_lines bo NO_TRUNC self) (\<lambda>lines. Inr (join ''\<newline>|__'' lines))"

section \<open>The event handler\<close>

text \<open>
  \<open>ct.cast(data, ct.POINTER(kernel_data)).contents\<close> reads the structure from the memory
  at \<open>data\<close>. The memory is a function from the offset behind \<open>data\<close> to the byte there;
  the fields lie at the offsets of the C layout of the \<open>_fields_\<close> lists (natural
  alignment, no padding arises). A \<open>c_char\<close> array reads as its bytes before the first NUL.
\<close>

type_synonym memory = "nat \<Rightarrow> 8 word"

definition rd_bytes :: "memory \<Rightarrow> nat \<Rightarrow> nat \<Rightarrow> 8 word list" where
  "rd_bytes m off n = map m [off..<off + n]"

definition be_word :: "8 word list \<Rightarrow> 'a::len word" where
  "be_word bs = foldl (\<lambda>acc b. push_bit 8 acc OR ucast b) 0 bs"

definition rd_int :: "byteorder \<Rightarrow> memory \<Rightarrow> nat \<Rightarrow> nat \<Rightarrow> 'a::len word" where
  "rd_int bo m off n =
     (case bo of
        BigEndian \<Rightarrow> be_word (rd_bytes m off n)
      | LittleEndian \<Rightarrow> be_word (rev (rd_bytes m off n)))"

definition rd_chars :: "memory \<Rightarrow> nat \<Rightarrow> nat \<Rightarrow> string" where
  "rd_chars m off cap = map (\<lambda>b. char_of (unat b)) (takeWhile (\<lambda>b. b \<noteq> 0) (rd_bytes m off cap))"

definition sizeof_task_info :: nat where
  "sizeof_task_info = 4 + 4 + 4 + CGROUP_NAME + TASK_COMM_LEN"

definition task_info_at :: "byteorder \<Rightarrow> memory \<Rightarrow> nat \<Rightarrow> task_info" where
  "task_info_at bo m off =
     \<lparr>pid = rd_int bo m off 4,
      uid = rd_int bo m (off + 4) 4,
      gid = rd_int bo m (off + 8) 4,
      cgroup = rd_chars m (off + 12) CGROUP_NAME,
      task = rd_chars m (off + 12 + CGROUP_NAME) TASK_COMM_LEN\<rparr>"

definition net_info4_at :: "byteorder \<Rightarrow> memory \<Rightarrow> nat \<Rightarrow> net_info4" where
  "net_info4_at bo m off =
     \<lparr>loc_port = rd_int bo m off 2,
      dst_port = rd_int bo m (off + 2) 2,
      saddr = rd_int bo m (off + 4) 4,
      daddr = rd_int bo m (off + 8) 4\<rparr>"

definition sizeof_kernel_data :: nat where
  "sizeof_kernel_data = 8 + 8 + sizeof_task_info + sizeof_task_info + 4 + 12"

definition cast_kernel_data :: "byteorder \<Rightarrow> memory \<Rightarrow> kernel_data" where
  "cast_kernel_data bo m =
     \<lparr>absolute_time = rd_int bo m 0 8,
      ktime = rd_int bo m 8 8,
      task = task_info_at bo m 16,
      ptask = task_info_at bo m (16 + sizeof_task_info),
      etype = rd_int bo m (16 + 2 * sizeof_task_info) 4,
      net4 = net_info4_at bo m (16 + 2 * sizeof_task_info + 4)\<rparr>"

text \<open>
  What the handler changes: the global \<open>estats\<close> and the standard output. The handler
  returns the exception that leaves it, if any, and the state it leaves behind.
\<close>

record world =
  estats :: Events_Statics
  stdout :: string

definition print_ipv4_event ::
  "byteorder \<Rightarrow> bool \<Rightarrow> nat \<Rightarrow> memory \<Rightarrow> nat \<Rightarrow> world \<Rightarrow> error option \<times> world" where
  "print_ipv4_event bo NO_TRUNC cpu data sz w =
     (let event = cast_kernel_data bo data;
          w1 = w\<lparr>estats := Events_Statics_add (estats w) event\<rparr>
      in case kernel_data_str bo NO_TRUNC event of
           Inl err \<Rightarrow> (Some err, w1)
         | Inr block \<Rightarrow> (None, w1\<lparr>stdout := stdout w1 @ block @ ''\<newline>''\<rparr>))"

section \<open>Loading the eBPF program\<close>

text \<open>
  \<open>s.replace(old, new)\<close>: every occurrence of \<open>old\<close> in \<open>s\<close>, found from left to right
  without overlap, becomes \<open>new\<close>; for an empty \<open>old\<close>, \<open>new\<close> goes before every character
  and at the end.
\<close>

fun replace :: "string \<Rightarrow> string \<Rightarrow> string \<Rightarrow> string" where
  "replace old new [] = (if old = [] then new else [])"
| "replace old new (c # cs) =
     (if old = [] then new @ c # replace old new cs
      else if prefix old (c # cs) then new @ replace old new (drop (length old) (c # cs))
      else c # replace old new cs)"

definition FLTR_TASK :: string where
  "FLTR_TASK = ''FLTR_TASK''"

definition fltr_template :: string where
  "fltr_template =
     ''if(ebpf_strcmp(event_data.task.task, '' @ [CHR 0x22] @ ''%s'' @ [CHR 0x22] @ '') == 0)''"

text \<open>
  \<open>readebpf\<close>. The files that \<open>open\<close> can read are a map from names to contents; a missing
  file raises \<open>IOError\<close>. The argument \<open>src\<close> is not used: the name \<open>ebpf.c\<close> is fixed.
\<close>

definition readebpf :: "(string \<rightharpoonup> string) \<Rightarrow> string \<Rightarrow> string option \<Rightarrow> error + string" where
  "readebpf files src task' =
     (case files ''ebpf.c'' of
        None \<Rightarrow> Inl IOError
      | Some ebpftxt \<Rightarrow>
          and_then
            (case task' of
               None \<Rightarrow> Inr ''''
             | Some name \<Rightarrow> pyformat fltr_template [name])
            (\<lambda>fltr. Inr (replace FLTR_TASK fltr ebpftxt)))"

section \<open>Notions used in the statements\<close>

text \<open>The text of an IPv4 address held in a 32-bit field that was read in host order.\<close>

definition addr_text :: "byteorder \<Rightarrow> 32 word \<Rightarrow> string" where
  "addr_text bo x =
     (case bo of
        LittleEndian \<Rightarrow>
          dotted_quad (ucast x) (ucast (drop_bit 8 x)) (ucast (drop_bit 16 x)) (ucast (drop_bit 24 x))
      | BigEndian \<Rightarrow>
          dotted_quad (ucast (drop_bit 24 x)) (ucast (drop_bit 16 x)) (ucast (drop_bit 8 x)) (ucast x))"

text \<open>The value of two consecutive bytes read as an unsigned 16-bit integer in host order.\<close>

definition host_u16 :: "byteorder \<Rightarrow> 8 word \<Rightarrow> 8 word \<Rightarrow> nat" where
  "host_u16 bo b0 b1 =
     (case bo of
        LittleEndian \<Rightarrow> unat b0 + 256 * unat b1
      | BigEndian \<Rightarrow> 256 * unat b0 + unat b1)"

text \<open>
  Sample records, as a little-endian host receives them: the memory behind a pointer to
  the given bytes (zero after them), and a character array of a given capacity.
\<close>

definition memory_of_bytes :: "8 word list \<Rightarrow> memory" where
  "memory_of_bytes bs = (\<lambda>i. if i < length bs then bs ! i else 0)"

definition c_chars :: "nat \<Rightarrow> string \<Rightarrow> 8 word list" where
  "c_chars cap s = map (\<lambda>c. of_nat (of_char c)) s @ replicate (cap - length s) 0"

text \<open>
  A record of kind \<open>kind\<close> (its four bytes) for a task in cgroup \<open>cg\<close>: kernel time 513,
  pid 7, uid 8, gid 9, command \<open>curl\<close>; parent pid 1, uid 0, gid 0, command \<open>bash\<close>; local
  port bytes \<open>1F 90\<close> (port 8080 in network order), remote port bytes \<open>00 50\<close> (port 80),
  local address bytes of 192.168.1.10, remote address bytes of 10.0.0.1.
\<close>

definition sample_record :: "8 word list \<Rightarrow> string \<Rightarrow> 8 word list" where
  "sample_record kind cg =
     [0, 0, 0, 0, 0, 0, 0, 0] @ [1, 2, 0, 0, 0, 0, 0, 0]
     @ [7, 0, 0, 0] @ [8, 0, 0, 0] @ [9, 0, 0, 0] @ c_chars 64 cg @ c_chars 16 ''curl''
     @ [1, 0, 0, 0] @ [0, 0, 0, 0] @ [0, 0, 0, 0] @ c_chars 64 ''/'' @ c_chars 16 ''bash''
     @ kind
     @ [0x1F, 0x90] @ [0x00, 0x50] @ [192, 168, 1, 10] @ [10, 0, 0, 1]"

definition sample_accept :: memory where
  "sample_accept = memory_of_bytes (sample_record [0x59, 0x02, 0, 0] ''/'')"

definition sample_connect :: memory where
  "sample_connect = memory_of_bytes (sample_record [0x5A, 0x02, 0, 0] ''abcdef0123456789'')"

definition sample_unknown :: memory where
  "sample_unknown = memory_of_bytes (sample_record [0x58, 0x02, 0, 0] ''/'')"

text \<open>The three sample records as the structures a little-endian host reads from them.\<close>

definition connect_event :: kernel_data where
  "connect_event =
     \<lparr>absolute_time = 0, ktime = 513,
      task = \<lparr>pid = 7, uid = 8, gid = 9, cgroup = ''abcdef0123456789'', task = ''curl''\<rparr>,
      ptask = \<lparr>pid = 1, uid = 0, gid = 0, cgroup = ''/'', task = ''bash''\<rparr>,
      etype = 602,
      net4 = \<lparr>loc_port = 36895, dst_port = 20480, saddr = 0x0A01A8C0, daddr = 0x0100000A\<rparr>\<rparr>"

definition accept_event :: kernel_data where
  "accept_event =
     \<lparr>absolute_time = 0, ktime = 513,
      task = \<lparr>pid = 7, uid = 8, gid = 9, cgroup = ''/'', task = ''curl''\<rparr>,
      ptask = \<lparr>pid = 1, uid = 0, gid = 0, cgroup = ''/'', task = ''bash''\<rparr>,
      etype = 601,
      net4 = \<lparr>loc_port = 36895, dst_port = 20480, saddr = 0x0A01A8C0, daddr = 0x0100000A\<rparr>\<rparr>"

definition unknown_event :: kernel_data where
  "unknown_event =
     \<lparr>absolute_time = 0, ktime = 513,
      task = \<lparr>pid = 7, uid = 8, gid = 9, cgroup = ''/'', task = ''curl''\<rparr>,
      ptask = \<lparr>pid = 1, uid = 0, gid = 0, cgroup = ''/'', task = ''bash''\<rparr>,
      etype = 600,
      net4 = \<lparr>loc_port = 36895, dst_port = 20480, saddr = 0x0A01A8C0, daddr = 0x0100000A\<rparr>\<rparr>"

text \<open>The comparison snippet generated for a task name, and nothing for no filter.\<close>

definition snippet :: "string option \<Rightarrow> string" where
  "snippet task' =
     (case task' of
        None \<Rightarrow> ''''
      | Some name \<Rightarrow>
          ''if(ebpf_strcmp(event_data.task.task, '' @ [CHR 0x22] @ name @ [CHR 0x22] @ '') == 0)'')"

definition sample_program :: "string list" where
  "sample_program = [''int trace(void) { '', '' submit(); }'']"



text \<open>
  The number that a decimal numeral denotes: digits with no leading zero, after a minus
  sign for a negative number; no value for any other string.
\<close>

definition is_digit :: "char \<Rightarrow> bool" where
  "is_digit c = (48 \<le> (of_char c :: nat) \<and> (of_char c :: nat) \<le> 57)"

definition nat_of_decimal :: "string \<Rightarrow> nat option" where
  "nat_of_decimal s =
     (if s \<noteq> [] \<and> list_all is_digit s \<and> \<not> (1 < length s \<and> hd s = CHR ''0'')
      then Some (foldl (\<lambda>a c. 10 * a + (of_char c - 48)) 0 s)
      else None)"

definition int_of_decimal :: "string \<Rightarrow> int option" where
  "int_of_decimal s =
     (if s \<noteq> [] \<and> hd s = CHR ''-''
      then (case nat_of_decimal (tl s) of
              None \<Rightarrow> None
            | Some n \<Rightarrow> if n = 0 then None else Some (- int n))
      else map_option int (nat_of_decimal s))"

definition fresh_world :: world where
  "fresh_world = \<lparr>estats = Events_Statics_init, stdout = []\<rparr>"

section \<open>Properties of the statistics\<close>

lemma digit_char_simps:
  "digit_char 0 = CHR ''0''" "digit_char (Suc 0) = CHR ''1''" "digit_char 1 = CHR ''1''"
  "digit_char 2 = CHR ''2''" "digit_char 3 = CHR ''3''" "digit_char 4 = CHR ''4''"
  "digit_char 5 = CHR ''5''" "digit_char 6 = CHR ''6''" "digit_char 7 = CHR ''7''"
  "digit_char 8 = CHR ''8''" "digit_char 9 = CHR ''9''"
  by code_simp+

lemmas eval_text = str_nat.simps digit_char_simps addr_text_def dotted_quad_def

lemma pyformat_Events_Statics_line:
  "pyformat Events_Statics_line [t, a, c] =
     Inr (''===== Events count =====\<newline>tot: '' @ t @ '' \<newline>accpt: '' @ a @ '' \<newline>conn: '' @ c)"
  by (simp add: Events_Statics_line_def)

lemma accept_counter_add:
  "AtomicInteger_get (accept_counter (Events_Statics_add s e)) =
     AtomicInteger_get (accept_counter s) + (if sint (etype e) = 601 then 1 else 0)"
  by (simp add: Events_Statics_add_def AtomicInteger_add_def AtomicInteger_get_def)

lemma connect_counter_add:
  "AtomicInteger_get (connect_counter (Events_Statics_add s e)) =
     AtomicInteger_get (connect_counter s) + (if sint (etype e) = 601 then 0 else 1)"
  by (simp add: Events_Statics_add_def AtomicInteger_add_def AtomicInteger_get_def)

lemma accept_counter_add_all:
  "AtomicInteger_get (accept_counter (add_all s es)) =
     AtomicInteger_get (accept_counter s) + int (length (filter (\<lambda>e. sint (etype e) = 601) es))"
  unfolding add_all_def
  by (induction es arbitrary: s) (simp_all add: accept_counter_add)

lemma connect_counter_add_all:
  "AtomicInteger_get (connect_counter (add_all s es)) =
     AtomicInteger_get (connect_counter s) + int (length (filter (\<lambda>e. sint (etype e) \<noteq> 601) es))"
  unfolding add_all_def
  by (induction es arbitrary: s) (simp_all add: connect_counter_add)

lemma counters_init:
  "AtomicInteger_get (accept_counter Events_Statics_init) = 0"
  "AtomicInteger_get (connect_counter Events_Statics_init) = 0"
  by (simp_all add: Events_Statics_init_def AtomicInteger_init_def AtomicInteger_get_def)

lemma length_filter_split:
  "int (length (filter (\<lambda>x. \<not> P x) xs)) = int (length xs) - int (length (filter P xs))"
  using sum_length_filter_compl [of P xs] by simp

text \<open>
  Claim C5. After the events \<open>es\<close> have been added to fresh statistics, the accept counter
  is the number \<open>k\<close> of events of kind 601 and the connect counter is \<open>N - k\<close>, where \<open>N\<close> is
  the number of events; the summary reports \<open>N\<close> as the total, then \<open>k\<close>, then \<open>N - k\<close>; and
  one more \<open>add\<close> raises the accept counter exactly when the event's kind is 601 and the
  connect counter otherwise.
\<close>

theorem add_all_counts_accepts_and_connects:
  "AtomicInteger_get (accept_counter (add_all Events_Statics_init es)) =
       int (length (filter (\<lambda>x. sint (etype x) = 601) es))
   \<and> AtomicInteger_get (connect_counter (add_all Events_Statics_init es)) =
       int (length es) - int (length (filter (\<lambda>x. sint (etype x) = 601) es))
   \<and> Events_Statics_str (add_all Events_Statics_init es) =
       Inr (''===== Events count =====\<newline>tot: '' @ str_int (int (length es))
            @ '' \<newline>accpt: '' @ str_int (int (length (filter (\<lambda>x. sint (etype x) = 601) es)))
            @ '' \<newline>conn: ''
            @ str_int (int (length es) - int (length (filter (\<lambda>x. sint (etype x) = 601) es))))
   \<and> AtomicInteger_get (accept_counter (Events_Statics_add (add_all Events_Statics_init es) e)) =
       int (length (filter (\<lambda>x. sint (etype x) = 601) es)) + (if sint (etype e) = 601 then 1 else 0)
   \<and> AtomicInteger_get (connect_counter (Events_Statics_add (add_all Events_Statics_init es) e)) =
       int (length es) - int (length (filter (\<lambda>x. sint (etype x) = 601) es))
       + (if sint (etype e) = 601 then 0 else 1)"
proof -
  let ?s = "add_all Events_Statics_init es"
  let ?k = "int (length (filter (\<lambda>x. sint (etype x) = 601) es))"
  have a: "AtomicInteger_get (accept_counter ?s) = ?k"
    by (simp add: accept_counter_add_all counters_init)
  have c: "AtomicInteger_get (connect_counter ?s) = int (length es) - ?k"
    by (simp add: connect_counter_add_all counters_init length_filter_split)
  have r: "Events_Statics_str ?s =
       Inr (''===== Events count =====\<newline>tot: '' @ str_int (int (length es))
            @ '' \<newline>accpt: '' @ str_int ?k
            @ '' \<newline>conn: '' @ str_int (int (length es) - ?k))"
    unfolding Events_Statics_str_def Let_def a c pyformat_Events_Statics_line by simp
  show ?thesis
    unfolding accept_counter_add connect_counter_add a c r by simp
qed

lemma of_char_digit_char: "d < 10 \<Longrightarrow> (of_char (digit_char d) :: nat) = 48 + d"
  by (simp add: digit_char_def)

lemma str_nat_digits:
  "str_nat n \<noteq> [] \<and> list_all is_digit (str_nat n)
   \<and> foldl (\<lambda>a c. 10 * a + (of_char c - 48)) 0 (str_nat n) = n
   \<and> (n < 10 \<or> 1 < length (str_nat n))
   \<and> (n = 0 \<or> hd (str_nat n) \<noteq> CHR ''0'')
   \<and> (10 \<le> n \<or> length (str_nat n) = 1)"
proof (induction n rule: str_nat.induct)
  case (1 n)
  show ?case
  proof (cases "n < 10")
    case True
    have o: "(of_char (digit_char n) :: nat) = 48 + n"
      using True by (rule of_char_digit_char)
    have z: "n = 0 \<or> digit_char n \<noteq> CHR ''0''"
    proof (cases "n = 0")
      case False
      have "(of_char (digit_char n) :: nat) \<noteq> of_char (CHR ''0'')"
        unfolding o using False by simp
      then show ?thesis by auto
    qed simp
    have d: "is_digit (digit_char n)"
      unfolding is_digit_def o using True by simp
    have e: "str_nat n = [digit_char n]"
      using True by (subst str_nat.simps) simp
    show ?thesis
      unfolding e using True o z d by simp
  next
    case False
    let ?q = "n div 10"
    have ih: "str_nat ?q \<noteq> [] \<and> list_all is_digit (str_nat ?q)
      \<and> foldl (\<lambda>a c. 10 * a + (of_char c - 48)) 0 (str_nat ?q) = ?q
      \<and> (?q = 0 \<or> hd (str_nat ?q) \<noteq> CHR ''0'')"
      using 1 [OF False] by simp
    have q: "?q \<noteq> 0" using False by simp
    have o: "(of_char (digit_char (n mod 10)) :: nat) = 48 + n mod 10"
      by (rule of_char_digit_char) simp
    have e: "str_nat n = str_nat ?q @ [digit_char (n mod 10)]"
      using False by (subst str_nat.simps) simp
    have m: "n mod 10 \<le> 9" by arith
    have d: "is_digit (digit_char (n mod 10))"
      unfolding is_digit_def o using m by simp
    show ?thesis
      unfolding e using ih q o d False by simp
  qed
qed

lemma nat_of_decimal_str_nat: "nat_of_decimal (str_nat n) = Some n"
proof -
  have "\<not> (1 < length (str_nat n) \<and> hd (str_nat n) = CHR ''0'')"
    using str_nat_digits [of n] by auto
  then show ?thesis
    using str_nat_digits [of n] by (simp add: nat_of_decimal_def)
qed

lemma hd_str_nat_not_minus: "hd (str_nat n) \<noteq> CHR ''-''"
proof -
  have "is_digit (hd (str_nat n))"
    using str_nat_digits [of n] by (cases "str_nat n") auto
  then show ?thesis
    by (auto simp: is_digit_def)
qed

lemma int_of_decimal_str_int: "int_of_decimal (str_int i) = Some i"
proof (cases "i < 0")
  case True
  then have "nat (- i) \<noteq> 0" by simp
  then show ?thesis
    using True by (simp add: int_of_decimal_def str_int_def nat_of_decimal_str_nat)
next
  case False
  have "str_nat (nat i) \<noteq> []"
    using str_nat_digits [of "nat i"] by simp
  then show ?thesis
    using False hd_str_nat_not_minus [of "nat i"]
    by (simp add: int_of_decimal_def str_int_def nat_of_decimal_str_nat)
qed

text \<open>
  Claim C7. In every state of the statistics the summary is the fixed header line followed
  by three lines, in this order: \<open>tot:\<close> with the decimal numeral of the sum of the two
  counters, \<open>accpt:\<close> with the decimal numeral of the accept counter, and \<open>conn:\<close> with the
  decimal numeral of the connect counter. For an accept counter of 2 and a connect counter
  of 3 the summary shows 5, 2 and 3.
\<close>

theorem Events_Statics_str_layout:
  "(\<exists>T A C.
      Events_Statics_str self =
        Inr (''===== Events count ====='' @ ''\<newline>tot: '' @ T
             @ '' \<newline>accpt: '' @ A @ '' \<newline>conn: '' @ C)
      \<and> int_of_decimal T = Some (m_value (accept_counter self) + m_value (connect_counter self))
      \<and> int_of_decimal A = Some (m_value (accept_counter self))
      \<and> int_of_decimal C = Some (m_value (connect_counter self)))
   \<and> Events_Statics_str \<lparr>connect_counter = \<lparr>m_value = 3\<rparr>, accept_counter = \<lparr>m_value = 2\<rparr>\<rparr> =
       Inr ''===== Events count =====\<newline>tot: 5 \<newline>accpt: 2 \<newline>conn: 3''"
proof
  let ?a = "m_value (accept_counter self)" and ?c = "m_value (connect_counter self)"
  have "Events_Statics_str self =
        Inr (''===== Events count ====='' @ ''\<newline>tot: '' @ str_int (?a + ?c)
             @ '' \<newline>accpt: '' @ str_int ?a @ '' \<newline>conn: '' @ str_int ?c)"
    by (simp add: Events_Statics_str_def Let_def pyformat_Events_Statics_line AtomicInteger_get_def)
  then show "\<exists>T A C.
      Events_Statics_str self =
        Inr (''===== Events count ====='' @ ''\<newline>tot: '' @ T
             @ '' \<newline>accpt: '' @ A @ '' \<newline>conn: '' @ C)
      \<and> int_of_decimal T = Some (?a + ?c)
      \<and> int_of_decimal A = Some ?a
      \<and> int_of_decimal C = Some ?c"
    using int_of_decimal_str_int by blast
next
  show "Events_Statics_str \<lparr>connect_counter = \<lparr>m_value = 3\<rparr>, accept_counter = \<lparr>m_value = 2\<rparr>\<rparr> =
       Inr ''===== Events count =====\<newline>tot: 5 \<newline>accpt: 2 \<newline>conn: 3''"
    by (simp add: Events_Statics_str_def Let_def pyformat_Events_Statics_line AtomicInteger_get_def
        str_int_def eval_text)
qed

text \<open>
  Claim C10. Whatever the kind of the event, \<open>add\<close> raises exactly one counter, by exactly
  one: the accept counter for kind 601, the connect counter for every other value. So after
  the \<open>n\<close> events of \<open>es\<close> the two counters of fresh statistics sum to \<open>n\<close>, and no counter
  of any statistics is lower after further events than before.
\<close>

theorem add_increments_exactly_one_counter:
  "AtomicInteger_get (accept_counter (Events_Statics_add s e)) =
       AtomicInteger_get (accept_counter s) + (if sint (etype e) = 601 then 1 else 0)
   \<and> AtomicInteger_get (connect_counter (Events_Statics_add s e)) =
       AtomicInteger_get (connect_counter s) + (if sint (etype e) = 601 then 0 else 1)
   \<and> AtomicInteger_get (accept_counter (add_all Events_Statics_init es))
       + AtomicInteger_get (connect_counter (add_all Events_Statics_init es)) = int (length es)
   \<and> AtomicInteger_get (accept_counter s) \<le> AtomicInteger_get (accept_counter (add_all s es))
   \<and> AtomicInteger_get (connect_counter s) \<le> AtomicInteger_get (connect_counter (add_all s es))"
  by (simp add: accept_counter_add connect_counter_add accept_counter_add_all
      connect_counter_add_all counters_init length_filter_split)


section \<open>Properties of the rendering\<close>

lemma and_then_simps [simp]:
  "and_then (Inr x) f = f x"
  "and_then (Inl err) f = Inl err"
  by (simp_all add: and_then_def)

lemma upt_4: "[0..<4] = [0, 1, 2, 3]"
  by (simp add: upt_rec)

lemma upt_off2: "[off..<off + 2] = [off, off + 1]"
  by (simp add: upt_rec)

lemma upt_off4: "[off..<off + 4] = [off, off + 1, off + 2, off + 3]"
  by (simp add: upt_rec)

lemma inet_ntop_pack_I: "inet_ntop (pack_I bo x) = Inr (addr_text bo x)"
  by (cases bo) (simp_all add: pack_I_def addr_text_def upt_4)

lemma etype2str_valid:
  "sint (etype self) = 601 \<or> sint (etype self) = 602 \<Longrightarrow>
   etype2str self = Inr (if sint (etype self) = 601 then ''TCP/ACC'' else ''TCP/CONN'')"
  by (auto simp: etype2str_def etype_table_def)

lemma etype2str_invalid:
  "sint (etype self) \<noteq> 601 \<Longrightarrow> sint (etype self) \<noteq> 602 \<Longrightarrow> etype2str self = Inl KeyError"
  by (simp add: etype2str_def etype_table_def)

lemma pyformat_ltask:
  "pyformat ltask [a, b, c, d, e] =
     Inr (''[ktime: '' @ a @ ''][gid: '' @ b @ ''][uid: '' @ c @ ''][pid: '' @ d @ '']['' @ e @ '']'')"
  by (simp add: ltask_def)

lemma pyformat_lparent:
  "pyformat lparent [a, b, c, d] =
     Inr (''parent: [gid: '' @ a @ ''][uid: '' @ b @ ''][pid: '' @ c @ '']['' @ d @ '']'')"
  by (simp add: lparent_def)

lemma pyformat_lnetinfo:
  "pyformat lnetinfo [a, b, c, d, e] =
     Inr (''netinfo: ['' @ a @ ''][IPv4]['' @ b @ '':'' @ c @ '' <-> '' @ d @ '':'' @ e @ '']'')"
  by (simp add: lnetinfo_def)

lemma pyformat_lcgroup:
  "pyformat lcgroup [a] = Inr (''container: [dockerid: '' @ a @ '']'')"
  by (simp add: lcgroup_def)

lemma task_line_eq:
  "task_line self =
     Inr (''[ktime: '' @ str_nat (unat (ktime self))
          @ ''][gid: '' @ str_nat (unat (gid (task self)))
          @ ''][uid: '' @ str_nat (unat (uid (task self)))
          @ ''][pid: '' @ str_nat (unat (pid (task self)))
          @ '']['' @ str_bytes (task_info.task (task self)) @ '']'')"
  unfolding task_line_def pyformat_ltask ..

lemma parent_line_eq:
  "parent_line self =
     Inr (''parent: [gid: '' @ str_nat (unat (gid (ptask self)))
          @ ''][uid: '' @ str_nat (unat (uid (ptask self)))
          @ ''][pid: '' @ str_nat (unat (pid (ptask self)))
          @ '']['' @ str_bytes (task_info.task (ptask self)) @ '']'')"
  unfolding parent_line_def pyformat_lparent ..

lemma netinfo_line_valid:
  assumes "sint (etype self) = 601 \<or> sint (etype self) = 602"
  shows "netinfo_line bo self =
     Inr (''netinfo: ['' @ (if sint (etype self) = 601 then ''TCP/ACC'' else ''TCP/CONN'')
          @ ''][IPv4]['' @ addr_text bo (saddr (net4 self)) @ '':''
          @ str_nat (unat (loc_port (net4 self))) @ '' <-> ''
          @ addr_text bo (daddr (net4 self)) @ '':''
          @ str_nat (unat (dst_port (net4 self))) @ '']'')"
  unfolding netinfo_line_def etype2str_valid [OF assms] inet_ntop_pack_I and_then_simps
    pyformat_lnetinfo ..

lemma netinfo_line_invalid:
  "sint (etype self) \<noteq> 601 \<Longrightarrow> sint (etype self) \<noteq> 602 \<Longrightarrow> netinfo_line bo self = Inl KeyError"
  by (simp add: netinfo_line_def etype2str_invalid)

lemma container_line_eq:
  "container_line NO_TRUNC self =
     Inr (''container: [dockerid: ''
          @ str_bytes (if NO_TRUNC then cgroup (task self) else take 12 (cgroup (task self)))
          @ '']'')"
  unfolding container_line_def Let_def pyformat_lcgroup ..

lemma kernel_data_lines_valid:
  assumes "sint (etype self) = 601 \<or> sint (etype self) = 602"
  shows "\<exists>l1 l2 l3 l4.
     task_line self = Inr l1 \<and> parent_line self = Inr l2 \<and> netinfo_line bo self = Inr l3
     \<and> container_line NO_TRUNC self = Inr l4
     \<and> kernel_data_lines bo NO_TRUNC self = Inr [l1, l2, l3, l4]"
  unfolding kernel_data_lines_def task_line_eq parent_line_eq netinfo_line_valid [OF assms]
    container_line_eq
  by (simp add: bytes_ne_str_def)

lemma kernel_data_str_invalid:
  "sint (etype self) \<noteq> 601 \<Longrightarrow> sint (etype self) \<noteq> 602 \<Longrightarrow>
   kernel_data_str bo NO_TRUNC self = Inl KeyError"
  by (simp add: kernel_data_str_def kernel_data_lines_def task_line_eq parent_line_eq
      netinfo_line_invalid)

lemma sample_connect_cast: "cast_kernel_data LittleEndian sample_connect = connect_event"
  by code_simp

lemma sample_accept_cast: "cast_kernel_data LittleEndian sample_accept = accept_event"
  by code_simp

lemma sample_unknown_cast: "cast_kernel_data LittleEndian sample_unknown = unknown_event"
  by code_simp

lemma str_bytes_samples:
  "str_bytes ''curl'' = ''b'curl'' @ [CHR 0x27]"
  "str_bytes ''bash'' = ''b'bash'' @ [CHR 0x27]"
  "str_bytes ''/'' = ''b'/'' @ [CHR 0x27]"
  "str_bytes ''abcdef012345'' = ''b'abcdef012345'' @ [CHR 0x27]"
  "str_bytes ''abcdef0123456789'' = ''b'abcdef0123456789'' @ [CHR 0x27]"
  by code_simp+




text \<open>
  Claim C8. The block rendered for an event of kind 601 or 602 is, in this order: the task
  line (kernel time, gid, uid, pid, command name); the parent line (gid, uid, pid, command
  name); the network line (the label \<open>TCP/ACC\<close> for kind 601 and \<open>TCP/CONN\<close> for kind 602,
  the tag \<open>IPv4\<close>, local address and port, remote address and port); and the container
  line. Consecutive lines are joined by a newline followed by the marker \<open>|__\<close>. The command
  names and the container identifier are \<open>bytes\<close> objects and appear as their literals.
\<close>

theorem kernel_data_str_block:
  assumes "sint (etype self) = 601 \<or> sint (etype self) = 602"
  shows "kernel_data_str bo NO_TRUNC self =
     Inr (''[ktime: '' @ str_nat (unat (ktime self))
            @ ''][gid: '' @ str_nat (unat (gid (task self)))
            @ ''][uid: '' @ str_nat (unat (uid (task self)))
            @ ''][pid: '' @ str_nat (unat (pid (task self)))
            @ '']['' @ str_bytes (task_info.task (task self)) @ '']''
          @ ''\<newline>|__''
          @ ''parent: [gid: '' @ str_nat (unat (gid (ptask self)))
            @ ''][uid: '' @ str_nat (unat (uid (ptask self)))
            @ ''][pid: '' @ str_nat (unat (pid (ptask self)))
            @ '']['' @ str_bytes (task_info.task (ptask self)) @ '']''
          @ ''\<newline>|__''
          @ ''netinfo: ['' @ (if sint (etype self) = 601 then ''TCP/ACC'' else ''TCP/CONN'')
            @ ''][IPv4]['' @ addr_text bo (saddr (net4 self)) @ '':''
            @ str_nat (unat (loc_port (net4 self))) @ '' <-> ''
            @ addr_text bo (daddr (net4 self)) @ '':''
            @ str_nat (unat (dst_port (net4 self))) @ '']''
          @ ''\<newline>|__''
          @ ''container: [dockerid: ''
            @ str_bytes (if NO_TRUNC then cgroup (task self) else take 12 (cgroup (task self)))
            @ '']'')"
  unfolding kernel_data_str_def kernel_data_lines_def task_line_eq parent_line_eq
    netinfo_line_valid [OF assms] container_line_eq
  by (simp add: bytes_ne_str_def)

theorem kernel_data_str_block_witness:
  "(sint (etype (cast_kernel_data LittleEndian sample_connect)) = 601
      \<or> sint (etype (cast_kernel_data LittleEndian sample_connect)) = 602)
   \<and> kernel_data_str LittleEndian False (cast_kernel_data LittleEndian sample_connect) =
       Inr (''[ktime: 513][gid: 9][uid: 8][pid: 7][b'curl']''
            @ ''\<newline>|__parent: [gid: 0][uid: 0][pid: 1][b'bash']''
            @ ''\<newline>|__netinfo: [TCP/CONN][IPv4][192.168.1.10:36895 <-> 10.0.0.1:20480]''
            @ ''\<newline>|__container: [dockerid: b'abcdef012345']'')"
proof -
  have h: "sint (etype connect_event) = 601 \<or> sint (etype connect_event) = 602"
    by (simp add: connect_event_def)
  show ?thesis
    unfolding sample_connect_cast
    using h kernel_data_str_block [OF h, of LittleEndian False]
    by (simp add: connect_event_def eval_text str_bytes_samples)
qed

lemma or_bytes_unat:
  "unat (push_bit 8 (ucast (a::8 word)) OR ucast (b :: 8 word) :: 16 word) = 256 * unat a + unat b"
proof -
  have d: "push_bit 8 (ucast a :: 16 word) + ucast b = push_bit 8 (ucast a) OR ucast b"
    by (rule disjunctive_add) (auto simp add: bit_simps dest: bit_imp_le_length)
  have la: "unat a < 256" and lb: "unat b < 256"
    using unsigned_less [of a, where ?'a = nat] unsigned_less [of b, where ?'a = nat] by simp_all
  have ua: "unat (ucast a :: 16 word) = unat a" and ub: "unat (ucast b :: 16 word) = unat b"
    using la lb by (simp_all add: unsigned_ucast_eq take_bit_nat_eq_self_iff)
  show ?thesis
    unfolding d [symmetric] using la lb
    by (simp add: push_bit_eq_mult unat_word_ariths ua ub)
qed

lemma be_word_2: "(be_word [a, b] :: 16 word) = push_bit 8 (ucast a) OR ucast b"
  by (simp add: be_word_def)

lemma unat_rd_int_2:
  "unat (rd_int bo m off 2 :: 16 word) = host_u16 bo (m off) (m (off + 1))"
  by (cases bo) (simp_all only: rd_int_def rd_bytes_def upt_off2 be_word_2 or_bytes_unat host_u16_def
      byteorder.case list.map rev.simps append.simps)

lemma port_offsets:
  "loc_port (net4 (cast_kernel_data bo m)) = rd_int bo m 204 2"
  "dst_port (net4 (cast_kernel_data bo m)) = rd_int bo m (204 + 2) 2"
  by (simp_all add: cast_kernel_data_def net_info4_at_def sizeof_task_info_def
      CGROUP_NAME_def TASK_COMM_LEN_def)

text \<open>
  Claim C1, as amended. The network line of an event of kind 601 or 602 shows each port as
  the unsigned value of the 16-bit field of the structure, with no byte-order conversion;
  and that field is the host-order reading of the two bytes of the record: bytes 204 and
  205 for the local port, 206 and 207 for the remote port.
\<close>

theorem netinfo_line_shows_port_fields_as_read:
  assumes "sint (etype self) = 601 \<or> sint (etype self) = 602"
  shows "netinfo_line bo self =
       Inr (''netinfo: ['' @ (if sint (etype self) = 601 then ''TCP/ACC'' else ''TCP/CONN'')
            @ ''][IPv4]['' @ addr_text bo (saddr (net4 self)) @ '':''
            @ str_nat (unat (loc_port (net4 self))) @ '' <-> ''
            @ addr_text bo (daddr (net4 self)) @ '':''
            @ str_nat (unat (dst_port (net4 self))) @ '']'')
     \<and> unat (loc_port (net4 (cast_kernel_data bo m))) = host_u16 bo (m 204) (m 205)
     \<and> unat (dst_port (net4 (cast_kernel_data bo m))) = host_u16 bo (m 206) (m 207)"
  using netinfo_line_valid [OF assms, of bo] unat_rd_int_2 [of bo m 204] unat_rd_int_2 [of bo m 206]
  by (simp add: port_offsets)

theorem netinfo_line_shows_port_fields_as_read_witness:
  "(sint (etype (cast_kernel_data LittleEndian sample_connect)) = 601
      \<or> sint (etype (cast_kernel_data LittleEndian sample_connect)) = 602)
   \<and> netinfo_line LittleEndian (cast_kernel_data LittleEndian sample_connect) =
       Inr ''netinfo: [TCP/CONN][IPv4][192.168.1.10:36895 <-> 10.0.0.1:20480]''
   \<and> unat (loc_port (net4 (cast_kernel_data LittleEndian sample_connect))) =
       host_u16 LittleEndian (sample_connect 204) (sample_connect 205)
   \<and> unat (dst_port (net4 (cast_kernel_data LittleEndian sample_connect))) =
       host_u16 LittleEndian (sample_connect 206) (sample_connect 207)"
proof -
  have h: "sint (etype (cast_kernel_data LittleEndian sample_connect)) = 601
      \<or> sint (etype (cast_kernel_data LittleEndian sample_connect)) = 602"
    by (simp add: sample_connect_cast connect_event_def)
  have "netinfo_line LittleEndian connect_event =
       Inr ''netinfo: [TCP/CONN][IPv4][192.168.1.10:36895 <-> 10.0.0.1:20480]''"
    using netinfo_line_shows_port_fields_as_read [OF h, of LittleEndian sample_connect]
    by (simp add: sample_connect_cast connect_event_def eval_text)
  then show ?thesis
    using h netinfo_line_shows_port_fields_as_read [OF h, of LittleEndian sample_connect]
    by (simp add: sample_connect_cast)
qed

lemma sample_connect_port_bytes:
  "sample_connect 204 = 0x1F" "sample_connect 205 = 0x90"
  by code_simp+

text \<open>
  Claim C1 as stated fails on a little-endian host: the sample record holds the bytes
  \<open>1F 90\<close>, the network-order value of port 8080, in its local port field, \<open>ntohs\<close> of the
  field is 8080, and the network line shows 36895.
\<close>

theorem ports_not_converted_counterexample:
  "sample_connect 204 = 0x1F \<and> sample_connect 205 = 0x90
   \<and> ntohs LittleEndian (loc_port (net4 (cast_kernel_data LittleEndian sample_connect))) = 8080
   \<and> netinfo_line LittleEndian (cast_kernel_data LittleEndian sample_connect) =
       Inr ''netinfo: [TCP/CONN][IPv4][192.168.1.10:36895 <-> 10.0.0.1:20480]''
   \<and> netinfo_line LittleEndian (cast_kernel_data LittleEndian sample_connect) \<noteq>
       Inr ''netinfo: [TCP/CONN][IPv4][192.168.1.10:8080 <-> 10.0.0.1:80]''"
proof -
  have h: "sint (etype connect_event) = 601 \<or> sint (etype connect_event) = 602"
    by (simp add: connect_event_def)
  have n: "ntohs LittleEndian (loc_port (net4 connect_event)) = 8080"
    by (simp add: ntohs_def connect_event_def)
  have l: "netinfo_line LittleEndian connect_event =
       Inr ''netinfo: [TCP/CONN][IPv4][192.168.1.10:36895 <-> 10.0.0.1:20480]''"
    unfolding netinfo_line_valid [OF h] by (simp add: connect_event_def eval_text)
  show ?thesis
    unfolding sample_connect_cast l using n by (simp add: sample_connect_port_bytes)
qed

text \<open>
  Claim C2 fails on the code. The test \<open>self.task.cgroup != '/'\<close> compares a \<open>bytes\<close>
  object with a \<open>str\<close> object and so holds for every record: the sample accept record,
  whose task cgroup is \<open>/\<close>, is rendered with the container line \<open>container: [dockerid: b'/']\<close>.
\<close>

theorem root_cgroup_still_renders_container_line:
  "sint (etype (cast_kernel_data LittleEndian sample_accept)) = 601
   \<and> cgroup (task (cast_kernel_data LittleEndian sample_accept)) = ''/''
   \<and> kernel_data_lines LittleEndian False (cast_kernel_data LittleEndian sample_accept) =
       Inr [''[ktime: 513][gid: 9][uid: 8][pid: 7][b'curl']'',
            ''parent: [gid: 0][uid: 0][pid: 1][b'bash']'',
            ''netinfo: [TCP/ACC][IPv4][192.168.1.10:36895 <-> 10.0.0.1:20480]'',
            ''container: [dockerid: b'/']'']
   \<and> kernel_data_str LittleEndian False (cast_kernel_data LittleEndian sample_accept) =
       Inr (''[ktime: 513][gid: 9][uid: 8][pid: 7][b'curl']''
            @ ''\<newline>|__parent: [gid: 0][uid: 0][pid: 1][b'bash']''
            @ ''\<newline>|__netinfo: [TCP/ACC][IPv4][192.168.1.10:36895 <-> 10.0.0.1:20480]''
            @ ''\<newline>|__container: [dockerid: b'/']'')"
proof -
  have h: "sint (etype accept_event) = 601 \<or> sint (etype accept_event) = 602"
    by (simp add: accept_event_def)
  have l: "kernel_data_lines LittleEndian False accept_event =
       Inr [''[ktime: 513][gid: 9][uid: 8][pid: 7][b'curl']'',
            ''parent: [gid: 0][uid: 0][pid: 1][b'bash']'',
            ''netinfo: [TCP/ACC][IPv4][192.168.1.10:36895 <-> 10.0.0.1:20480]'',
            ''container: [dockerid: b'/']'']"
    unfolding kernel_data_lines_def task_line_eq parent_line_eq netinfo_line_valid [OF h]
      container_line_eq
    by (simp add: accept_event_def eval_text str_bytes_samples bytes_ne_str_def)
  show ?thesis
    unfolding sample_accept_cast kernel_data_str_def l
    by (simp add: accept_event_def)
qed




section \<open>Properties of the event handler\<close>

lemma print_ipv4_event_invalid:
  assumes "sint (etype (cast_kernel_data bo data)) \<noteq> 601"
    and "sint (etype (cast_kernel_data bo data)) \<noteq> 602"
  shows "print_ipv4_event bo NO_TRUNC cpu data sz w =
     (Some KeyError, w\<lparr>estats := Events_Statics_add (estats w) (cast_kernel_data bo data)\<rparr>)"
  by (simp add: print_ipv4_event_def Let_def kernel_data_str_invalid [OF assms])

lemma kernel_data_str_valid:
  assumes "sint (etype self) = 601 \<or> sint (etype self) = 602"
  shows "\<exists>block. kernel_data_str bo NO_TRUNC self = Inr block"
  using kernel_data_lines_valid [OF assms, of bo NO_TRUNC]
  by (auto simp: kernel_data_str_def)

text \<open>
  Claim C3, as amended. A record whose kind is neither 601 nor 602 is not validated: the
  handler first adds it to the statistics, where it raises the connect counter by one and
  leaves the accept counter as it was; then rendering fails with \<open>KeyError\<close>, which leaves
  the handler, and nothing is printed. This holds for every value of the size argument.
\<close>

theorem unknown_kind_is_counted_then_raises_KeyError:
  assumes "sint (etype (cast_kernel_data bo data)) \<noteq> 601"
    and "sint (etype (cast_kernel_data bo data)) \<noteq> 602"
  shows "fst (print_ipv4_event bo NO_TRUNC cpu data sz w) = Some KeyError
     \<and> AtomicInteger_get (connect_counter (estats (snd (print_ipv4_event bo NO_TRUNC cpu data sz w)))) =
         AtomicInteger_get (connect_counter (estats w)) + 1
     \<and> AtomicInteger_get (accept_counter (estats (snd (print_ipv4_event bo NO_TRUNC cpu data sz w)))) =
         AtomicInteger_get (accept_counter (estats w))
     \<and> stdout (snd (print_ipv4_event bo NO_TRUNC cpu data sz w)) = stdout w"
  unfolding print_ipv4_event_invalid [OF assms]
  using assms(1) by (simp add: accept_counter_add connect_counter_add)

theorem unknown_kind_is_counted_then_raises_KeyError_witness:
  "sint (etype (cast_kernel_data LittleEndian sample_unknown)) \<noteq> 601
   \<and> sint (etype (cast_kernel_data LittleEndian sample_unknown)) \<noteq> 602
   \<and> fst (print_ipv4_event LittleEndian False 0 sample_unknown sizeof_kernel_data fresh_world) =
       Some KeyError
   \<and> AtomicInteger_get (connect_counter (estats (snd
         (print_ipv4_event LittleEndian False 0 sample_unknown sizeof_kernel_data fresh_world)))) = 1
   \<and> AtomicInteger_get (accept_counter (estats (snd
         (print_ipv4_event LittleEndian False 0 sample_unknown sizeof_kernel_data fresh_world)))) = 0
   \<and> stdout (snd (print_ipv4_event LittleEndian False 0 sample_unknown sizeof_kernel_data fresh_world)) = []"
proof -
  have h1: "sint (etype (cast_kernel_data LittleEndian sample_unknown)) \<noteq> 601"
    and h2: "sint (etype (cast_kernel_data LittleEndian sample_unknown)) \<noteq> 602"
    by (simp_all add: sample_unknown_cast unknown_event_def)
  show ?thesis
    using h1 h2
      unknown_kind_is_counted_then_raises_KeyError [OF h1 h2, of False 0 sizeof_kernel_data fresh_world]
    by (simp add: fresh_world_def counters_init)
qed

text \<open>
  Claim C3 as stated fails: the sample record of the correct size whose kind is 600 is
  aggregated (the connect counter of fresh statistics becomes 1) and the handler ends with
  \<open>KeyError\<close>.
\<close>

theorem unknown_kind_not_dropped_counterexample:
  "sizeof_kernel_data = 216
   \<and> sint (etype (cast_kernel_data LittleEndian sample_unknown)) = 600
   \<and> print_ipv4_event LittleEndian False 0 sample_unknown sizeof_kernel_data fresh_world =
       (Some KeyError,
        \<lparr>estats = \<lparr>connect_counter = \<lparr>m_value = 1\<rparr>, accept_counter = \<lparr>m_value = 0\<rparr>\<rparr>,
         stdout = []\<rparr>)
   \<and> estats (snd (print_ipv4_event LittleEndian False 0 sample_unknown sizeof_kernel_data fresh_world))
       \<noteq> estats fresh_world"
proof -
  have h1: "sint (etype (cast_kernel_data LittleEndian sample_unknown)) \<noteq> 601"
    and h2: "sint (etype (cast_kernel_data LittleEndian sample_unknown)) \<noteq> 602"
    by (simp_all add: sample_unknown_cast unknown_event_def)
  show ?thesis
    unfolding print_ipv4_event_invalid [OF h1 h2] sample_unknown_cast
    by (simp add: unknown_event_def fresh_world_def Events_Statics_init_def AtomicInteger_init_def
        Events_Statics_add_def AtomicInteger_add_def sizeof_kernel_data_def sizeof_task_info_def
        CGROUP_NAME_def TASK_COMM_LEN_def)
qed

text \<open>
  Claim C4, as amended. The handler never looks at the size argument: whatever its value,
  the structure is read from the memory at \<open>data\<close>, added to the statistics and, when its
  kind is 601 or 602, rendered and printed followed by a newline, with no exception.
\<close>

theorem size_argument_is_not_checked:
  assumes "sint (etype (cast_kernel_data bo data)) = 601
      \<or> sint (etype (cast_kernel_data bo data)) = 602"
  shows "\<exists>block. kernel_data_str bo NO_TRUNC (cast_kernel_data bo data) = Inr block
     \<and> print_ipv4_event bo NO_TRUNC cpu data sz w =
         (None, \<lparr>estats = Events_Statics_add (estats w) (cast_kernel_data bo data),
                 stdout = stdout w @ block @ ''\<newline>''\<rparr>)"
proof -
  obtain block where t: "kernel_data_str bo NO_TRUNC (cast_kernel_data bo data) = Inr block"
    using kernel_data_str_valid [OF assms] by blast
  show ?thesis
    by (rule exI [of _ block]) (simp add: print_ipv4_event_def Let_def t)
qed

theorem size_argument_is_not_checked_witness:
  "(220::nat) \<noteq> sizeof_kernel_data
   \<and> (sint (etype (cast_kernel_data LittleEndian sample_accept)) = 601
      \<or> sint (etype (cast_kernel_data LittleEndian sample_accept)) = 602)
   \<and> (\<exists>block. kernel_data_str LittleEndian False (cast_kernel_data LittleEndian sample_accept) = Inr block
      \<and> print_ipv4_event LittleEndian False 0 sample_accept 220 fresh_world =
         (None, \<lparr>estats = Events_Statics_add (estats fresh_world)
                             (cast_kernel_data LittleEndian sample_accept),
                 stdout = stdout fresh_world @ block @ ''\<newline>''\<rparr>))"
proof -
  have h: "sint (etype (cast_kernel_data LittleEndian sample_accept)) = 601
      \<or> sint (etype (cast_kernel_data LittleEndian sample_accept)) = 602"
    by (simp add: sample_accept_cast accept_event_def)
  have n: "(220::nat) \<noteq> sizeof_kernel_data"
    by (simp add: sizeof_kernel_data_def sizeof_task_info_def CGROUP_NAME_def TASK_COMM_LEN_def)
  show ?thesis
    using n h size_argument_is_not_checked [OF h, of False 0 220 fresh_world] by blast
qed

text \<open>
  Claim C4 as stated fails: with a size argument of 220, or of 0, instead of the 216 bytes
  of the structure, the sample accept record is decoded, counted and printed, and no error
  is raised.
\<close>

theorem size_mismatch_not_rejected_counterexample:
  "sizeof_kernel_data = 216
   \<and> print_ipv4_event LittleEndian False 0 sample_accept 220 fresh_world =
       (None,
        \<lparr>estats = \<lparr>connect_counter = \<lparr>m_value = 0\<rparr>, accept_counter = \<lparr>m_value = 1\<rparr>\<rparr>,
         stdout = ''[ktime: 513][gid: 9][uid: 8][pid: 7][b'curl']''
            @ ''\<newline>|__parent: [gid: 0][uid: 0][pid: 1][b'bash']''
            @ ''\<newline>|__netinfo: [TCP/ACC][IPv4][192.168.1.10:36895 <-> 10.0.0.1:20480]''
            @ ''\<newline>|__container: [dockerid: b'/']''
            @ ''\<newline>''\<rparr>)
   \<and> print_ipv4_event LittleEndian False 0 sample_accept 0 fresh_world =
       print_ipv4_event LittleEndian False 0 sample_accept 220 fresh_world"
proof -
  have h: "sint (etype accept_event) = 601 \<or> sint (etype accept_event) = 602"
    by (simp add: accept_event_def)
  have k: "kernel_data_str LittleEndian False accept_event =
      Inr (''[ktime: 513][gid: 9][uid: 8][pid: 7][b'curl']''
            @ ''\<newline>|__parent: [gid: 0][uid: 0][pid: 1][b'bash']''
            @ ''\<newline>|__netinfo: [TCP/ACC][IPv4][192.168.1.10:36895 <-> 10.0.0.1:20480]''
            @ ''\<newline>|__container: [dockerid: b'/']'')"
    unfolding kernel_data_str_def kernel_data_lines_def task_line_eq parent_line_eq
      netinfo_line_valid [OF h] container_line_eq
    by (simp add: accept_event_def eval_text str_bytes_samples bytes_ne_str_def)
  have p: "\<And>sz. print_ipv4_event LittleEndian False 0 sample_accept sz fresh_world =
       (None,
        \<lparr>estats = \<lparr>connect_counter = \<lparr>m_value = 0\<rparr>, accept_counter = \<lparr>m_value = 1\<rparr>\<rparr>,
         stdout = ''[ktime: 513][gid: 9][uid: 8][pid: 7][b'curl']''
            @ ''\<newline>|__parent: [gid: 0][uid: 0][pid: 1][b'bash']''
            @ ''\<newline>|__netinfo: [TCP/ACC][IPv4][192.168.1.10:36895 <-> 10.0.0.1:20480]''
            @ ''\<newline>|__container: [dockerid: b'/']''
            @ ''\<newline>''\<rparr>)"
    unfolding print_ipv4_event_def Let_def sample_accept_cast k
    by (simp add: accept_event_def fresh_world_def Events_Statics_init_def AtomicInteger_init_def
        Events_Statics_add_def AtomicInteger_add_def)
  show ?thesis
    unfolding p
    by (simp add: sizeof_kernel_data_def sizeof_task_info_def CGROUP_NAME_def TASK_COMM_LEN_def)
qed

section \<open>Properties of the substitution\<close>

lemma replace_without_occurrence:
  "old \<noteq> [] \<Longrightarrow> \<not> sublist old s \<Longrightarrow> replace old new s = s"
proof (induction s)
  case Nil
  then show ?case by simp
next
  case (Cons c cs)
  have np: "\<not> prefix old (c # cs)"
    using Cons.prems(2) prefix_imp_sublist by blast
  have ns: "\<not> sublist old cs"
    using Cons.prems(2) by (meson sublist_Cons_right)
  show ?case
    using Cons.IH [OF Cons.prems(1) ns] np Cons.prems(1) by simp
qed

lemma FLTR_TASK_no_border:
  assumes "prefix FLTR_TASK (pre @ FLTR_TASK @ post)" and "pre \<noteq> []"
  shows "length FLTR_TASK \<le> length pre"
proof (rule ccontr)
  assume "\<not> length FLTR_TASK \<le> length pre"
  then have kk: "length pre < length FLTR_TASK" by simp
  then have k: "length pre < 9" by (simp add: FLTR_TASK_def)
  obtain zs where z: "pre @ FLTR_TASK @ post = FLTR_TASK @ zs"
    using assms(1) by (auto simp: prefix_def)
  have e1: "(pre @ FLTR_TASK @ post) ! length pre = CHR ''F''"
    by (simp add: nth_append FLTR_TASK_def)
  have e2: "(FLTR_TASK @ zs) ! length pre = FLTR_TASK ! length pre"
    using kk by (simp add: nth_append)
  have f: "FLTR_TASK ! length pre = CHR ''F''"
    using e1 e2 z by simp
  have p0: "0 < length pre"
    using assms(2) by simp
  have "length pre = 1 \<or> length pre = 2 \<or> length pre = 3 \<or> length pre = 4
      \<or> length pre = 5 \<or> length pre = 6 \<or> length pre = 7 \<or> length pre = 8"
    using k p0 by arith
  then show False
    using f by (auto simp: FLTR_TASK_def)
qed

lemma replace_first_FLTR_TASK:
  "\<not> sublist FLTR_TASK pre \<Longrightarrow>
   replace FLTR_TASK new (pre @ FLTR_TASK @ post) = pre @ new @ replace FLTR_TASK new post"
proof (induction pre)
  case Nil
  have "replace FLTR_TASK new (FLTR_TASK @ post) = new @ replace FLTR_TASK new post"
    by (simp add: FLTR_TASK_def)
  then show ?case by simp
next
  case (Cons c cs)
  have ne: "FLTR_TASK \<noteq> []" by (simp add: FLTR_TASK_def)
  have np: "\<not> prefix FLTR_TASK ((c # cs) @ FLTR_TASK @ post)"
  proof
    assume p: "prefix FLTR_TASK ((c # cs) @ FLTR_TASK @ post)"
    then have "length FLTR_TASK \<le> length (c # cs)"
      by (rule FLTR_TASK_no_border) simp
    with p have "prefix FLTR_TASK (c # cs)"
      by (metis prefix_length_prefix prefixI)
    then show False
      using Cons.prems prefix_imp_sublist by blast
  qed
  have ns: "\<not> sublist FLTR_TASK cs"
    using Cons.prems by (meson sublist_Cons_right)
  show ?case
    using Cons.IH [OF ns] np ne by simp
qed

lemma replace_join_FLTR_TASK:
  "segs \<noteq> [] \<Longrightarrow> \<forall>s \<in> set segs. \<not> sublist FLTR_TASK s \<Longrightarrow>
   replace FLTR_TASK new (join FLTR_TASK segs) = join new segs"
proof (induction FLTR_TASK segs rule: join.induct)
  case 1
  then show ?case by simp
next
  case (2 l)
  then show ?case
    by (simp add: replace_without_occurrence FLTR_TASK_def)
next
  case (3 l m ls)
  then show ?case
    by (simp add: replace_first_FLTR_TASK)
qed

lemma first_occurrence:
  "old \<noteq> [] \<Longrightarrow> sublist old s \<Longrightarrow> \<exists>pre post. s = pre @ old @ post \<and> \<not> sublist old pre"
proof (induction s)
  case Nil
  then show ?case by simp
next
  case (Cons c cs)
  show ?case
  proof (cases "prefix old (c # cs)")
    case True
    then obtain post where "c # cs = [] @ old @ post"
      by (auto simp: prefix_def)
    moreover have "\<not> sublist old []"
      using Cons.prems(1) by simp
    ultimately show ?thesis by blast
  next
    case False
    then have "sublist old cs"
      using Cons.prems(2) by (simp add: sublist_Cons_right)
    then obtain pre post where s: "cs = pre @ old @ post" and n: "\<not> sublist old pre"
      using Cons.IH [OF Cons.prems(1)] by blast
    have "\<not> prefix old (c # pre)"
    proof
      assume "prefix old (c # pre)"
      then have "prefix old ((c # pre) @ old @ post)"
        by (rule prefix_prefix)
      then show False using False s by simp
    qed
    then have "\<not> sublist old (c # pre)"
      using n by (simp add: sublist_Cons_right)
    moreover have "c # cs = (c # pre) @ old @ post"
      using s by simp
    ultimately show ?thesis by blast
  qed
qed

lemma pieces_exist:
  "\<exists>segs. segs \<noteq> [] \<and> (\<forall>s \<in> set segs. \<not> sublist FLTR_TASK s) \<and> prog = join FLTR_TASK segs"
proof (induction "length prog" arbitrary: prog rule: less_induct)
  case less
  have ne: "FLTR_TASK \<noteq> []" by (simp add: FLTR_TASK_def)
  show ?case
  proof (cases "sublist FLTR_TASK prog")
    case False
    then have "[prog] \<noteq> [] \<and> (\<forall>s \<in> set [prog]. \<not> sublist FLTR_TASK s)
        \<and> prog = join FLTR_TASK [prog]"
      by simp
    then show ?thesis by blast
  next
    case True
    then obtain pre post where t: "prog = pre @ FLTR_TASK @ post" and n: "\<not> sublist FLTR_TASK pre"
      using first_occurrence [OF ne] by blast
    have "length post < length prog"
      using t ne by simp
    then obtain segs where s: "segs \<noteq> []" "\<forall>s \<in> set segs. \<not> sublist FLTR_TASK s"
        "post = join FLTR_TASK segs"
      using less by blast
    obtain m ms where c: "segs = m # ms"
      using s(1) by (cases segs) auto
    have "pre # segs \<noteq> [] \<and> (\<forall>s \<in> set (pre # segs). \<not> sublist FLTR_TASK s)
        \<and> prog = join FLTR_TASK (pre # segs)"
      using s n t unfolding c by simp
    then show ?thesis by blast
  qed
qed

lemma pyformat_fltr_template:
  "pyformat fltr_template [name] = Inr (snippet (Some name))"
  by (simp add: fltr_template_def snippet_def)

text \<open>
  Claim C9. Every text of \<open>ebpf.c\<close> is a sequence of pieces that do not contain the token
  \<open>FLTR_TASK\<close>, with the token between each two consecutive pieces. For each such sequence
  \<open>readebpf\<close> returns the same pieces, unchanged and in the same order, with every token
  replaced: by the empty string when no task is given, and by the comparison of
  \<open>event_data.task.task\<close> with the quoted task name, \<open>if(ebpf_strcmp(..., name) == 0)\<close>,
  when a task is given.
\<close>

theorem readebpf_substitutes_token:
  assumes "files ''ebpf.c'' = Some prog"
  shows "(\<exists>segs. segs \<noteq> [] \<and> list_all (\<lambda>s. \<not> sublist FLTR_TASK s) segs
            \<and> prog = join FLTR_TASK segs)
     \<and> (\<forall>segs. segs \<noteq> [] \<and> list_all (\<lambda>s. \<not> sublist FLTR_TASK s) segs
            \<and> prog = join FLTR_TASK segs \<longrightarrow>
          readebpf files src None = Inr (join [] segs)
          \<and> readebpf files src (Some name) =
              Inr (join (''if(ebpf_strcmp(event_data.task.task, '' @ [CHR 0x22] @ name
                         @ [CHR 0x22] @ '') == 0)'') segs))"
proof (intro conjI allI impI)
  show "\<exists>segs. segs \<noteq> [] \<and> list_all (\<lambda>s. \<not> sublist FLTR_TASK s) segs
      \<and> prog = join FLTR_TASK segs"
    using pieces_exist [of prog] by (simp add: list_all_iff)
next
  fix segs
  assume a: "segs \<noteq> [] \<and> list_all (\<lambda>s. \<not> sublist FLTR_TASK s) segs
      \<and> prog = join FLTR_TASK segs"
  then have s: "segs \<noteq> []" "\<forall>s \<in> set segs. \<not> sublist FLTR_TASK s"
      "prog = join FLTR_TASK segs"
    by (simp_all add: list_all_iff)
  have r: "readebpf files src t = Inr (join (snippet t) segs)" for t
    unfolding readebpf_def assms s(3)
    by (simp add: pyformat_fltr_template replace_join_FLTR_TASK [OF s(1,2)] snippet_def
        split: option.split)
  show "readebpf files src None = Inr (join [] segs)"
    unfolding r by (simp add: snippet_def)
  show "readebpf files src (Some name) =
      Inr (join (''if(ebpf_strcmp(event_data.task.task, '' @ [CHR 0x22] @ name
                 @ [CHR 0x22] @ '') == 0)'') segs)"
    unfolding r by (simp add: snippet_def)
qed

theorem readebpf_substitutes_token_witness:
  "[''ebpf.c'' \<mapsto> ''int trace(void) { FLTR_TASK submit(); }''] ''ebpf.c'' =
       Some ''int trace(void) { FLTR_TASK submit(); }''
   \<and> sample_program \<noteq> []
   \<and> list_all (\<lambda>s. \<not> sublist FLTR_TASK s) sample_program
   \<and> ''int trace(void) { FLTR_TASK submit(); }'' = join FLTR_TASK sample_program
   \<and> readebpf [''ebpf.c'' \<mapsto> ''int trace(void) { FLTR_TASK submit(); }''] ''ebpf.c'' None =
       Inr ''int trace(void) {  submit(); }''
   \<and> readebpf [''ebpf.c'' \<mapsto> ''int trace(void) { FLTR_TASK submit(); }''] ''ebpf.c'' (Some ''curl'') =
       Inr (''int trace(void) { if(ebpf_strcmp(event_data.task.task, '' @ [CHR 0x22] @ ''curl''
            @ [CHR 0x22] @ '') == 0) submit(); }'')"
proof -
  let ?prog = "''int trace(void) { FLTR_TASK submit(); }''"
  let ?files = "[''ebpf.c'' \<mapsto> ?prog]"
  have f: "?files ''ebpf.c'' = Some ?prog"
    by simp
  have n: "sample_program \<noteq> []"
    by (simp add: sample_program_def)
  have a: "list_all (\<lambda>s. \<not> sublist FLTR_TASK s) sample_program"
    by code_simp
  have j: "?prog = join FLTR_TASK sample_program"
    by (simp add: sample_program_def FLTR_TASK_def)
  have "readebpf ?files ''ebpf.c'' None = Inr (join [] sample_program)
      \<and> readebpf ?files ''ebpf.c'' (Some ''curl'') =
          Inr (join (''if(ebpf_strcmp(event_data.task.task, '' @ [CHR 0x22] @ ''curl''
                     @ [CHR 0x22] @ '') == 0)'') sample_program)"
    using readebpf_substitutes_token [where files = ?files and prog = ?prog, OF f,
        of "''ebpf.c''" "''curl''"] n a j by blast
  then have r: "readebpf ?files ''ebpf.c'' None = Inr ''int trace(void) {  submit(); }''
      \<and> readebpf ?files ''ebpf.c'' (Some ''curl'') =
          Inr (''int trace(void) { if(ebpf_strcmp(event_data.task.task, '' @ [CHR 0x22] @ ''curl''
               @ [CHR 0x22] @ '') == 0) submit(); }'')"
    by (simp add: sample_program_def)
  show ?thesis
    using f n a j r by blast
qed

end
